theory Spec2Isabelle
  imports Complex_Main "HOL-Library.Multiset"
begin

section \<open>Calendar dates\<close>

text \<open>
  The notebook's queries use the warehouse's \<^verbatim>\<open>DATE\<close> values only through the literals
  \<^verbatim>\<open>DATE('2011-09-01')\<close>, \<^verbatim>\<open>DATE('2011-12-01')\<close>, through \<^verbatim>\<open>MIN(order_date)\<close> and
  through \<^verbatim>\<open>DATE_DIFF(a, b, DAY)\<close>. A date is the number of days since 1970-01-01 in the
  proleptic Gregorian calendar; \<open>DATE y m d\<close> computes that number for a literal.
\<close>

type_synonym date = int

definition DATE :: "int \<Rightarrow> int \<Rightarrow> int \<Rightarrow> date" where
  "DATE y m d =
     (let y' = (if m \<le> 2 then y - 1 else y);
          era = y' div 400;
          yoe = y' - era * 400;
          doy = (153 * (if m > 2 then m - 3 else m + 9) + 2) div 5 + d - 1;
          doe = yoe * 365 + yoe div 4 - yoe div 100 + doy
      in era * 146097 + doe - 719468)"

definition date_diff_day :: "date \<Rightarrow> date \<Rightarrow> int" where
  \<comment> \<open>\<^verbatim>\<open>DATE_DIFF(a, b, DAY)\<close>: the number of day boundaries from \<open>b\<close> to \<open>a\<close>.\<close>
  "date_diff_day a b = a - b"

section \<open>SQL values, aggregates and functions\<close>

text \<open>
  A nullable SQL value is an \<open>option\<close>, \<open>None\<close> being \<^verbatim>\<open>NULL\<close>. The numeric columns are
  modelled over the reals: the warehouse's FLOAT64 rounding and overflow are not part of
  the model. Aggregates skip \<^verbatim>\<open>NULL\<close> inputs; \<^verbatim>\<open>AVG\<close>, \<^verbatim>\<open>SUM\<close> and \<^verbatim>\<open>MIN\<close> over no
  non-\<^verbatim>\<open>NULL\<close> input are \<^verbatim>\<open>NULL\<close>, \<^verbatim>\<open>COUNT\<close> is then 0.
\<close>

definition non_null :: "'a option list \<Rightarrow> 'a list" where
  "non_null vs = concat (map (\<lambda>v. case v of None \<Rightarrow> [] | Some x \<Rightarrow> [x]) vs)"

definition sql_count :: "'a option list \<Rightarrow> int" where
  "sql_count vs = int (length (non_null vs))"

definition sql_avg :: "real option list \<Rightarrow> real option" where
  "sql_avg vs =
     (let xs = non_null vs
      in if xs = [] then None else Some (sum_list xs / real (length xs)))"

definition sql_sum :: "real option list \<Rightarrow> real option" where
  "sql_sum vs = (let xs = non_null vs in if xs = [] then None else Some (sum_list xs))"

definition sql_min :: "date option list \<Rightarrow> date option" where
  "sql_min vs = (case non_null vs of [] \<Rightarrow> None | x # xs \<Rightarrow> Some (fold min xs x))"

definition sql_binop :: "('a \<Rightarrow> 'b \<Rightarrow> 'c) \<Rightarrow> 'a option \<Rightarrow> 'b option \<Rightarrow> 'c option" where
  \<comment> \<open>An arithmetic operator: \<^verbatim>\<open>NULL\<close> as soon as one operand is \<^verbatim>\<open>NULL\<close>.\<close>
  "sql_binop f a b =
     (case a of None \<Rightarrow> None | Some x \<Rightarrow> (case b of None \<Rightarrow> None | Some y \<Rightarrow> Some (f x y)))"

definition safe_divide :: "real option \<Rightarrow> real option \<Rightarrow> real option" where
  \<comment> \<open>\<^verbatim>\<open>SAFE_DIVIDE(a, b)\<close>: \<^verbatim>\<open>NULL\<close> where a plain division would fail on \<open>b = 0\<close>.\<close>
  "safe_divide a b =
     (case a of None \<Rightarrow> None
      | Some x \<Rightarrow> (case b of None \<Rightarrow> None
                  | Some y \<Rightarrow> if y = 0 then None else Some (x / y)))"

definition GROUP_BY :: "('a \<Rightarrow> 'k) \<Rightarrow> 'a list \<Rightarrow> ('k \<times> 'a list) list" where
  \<comment> \<open>One group per distinct key, holding the rows of that key. Two \<^verbatim>\<open>NULL\<close> keys are one
      group, as in SQL.\<close>
  "GROUP_BY key rows = map (\<lambda>k. (k, filter (\<lambda>r. key r = k) rows)) (remdups (map key rows))"

section \<open>The warehouse tables\<close>

text \<open>
  Modelled from the spec: the schemas of the raw, the clean and the ML table. The script
  that creates the tables (\<^verbatim>\<open>utils/data_download.py\<close>) is not among the sources; the
  notebook reads the clean and the ML table by column name. The raw table holds one
  \<open>RawTransaction\<close> per row, the clean table one \<open>DailyOrder\<close>, the ML table one
  \<open>CustomerFeatureRecord\<close> (spec, sections 3 and 6), whose label column the notebook
  calls \<^verbatim>\<open>target_monetary_value_3M\<close>. A customer id is nullable until the validity
  filter has run.
\<close>

record raw_transaction =
  invoice_id :: string
  customer_id :: "int option"
  country :: "string option"
  order_date :: date
  quantity :: int
  unit_price :: real

record daily_order =
  customer_id :: "int option"
  order_date :: date
  country :: "string option"
  total_quantity :: int
  total_revenue :: real

record customer_features =
  customer_id :: int
  customer_country :: "string option"
  n_purchases :: int
  avg_purchase_size :: real
  avg_purchase_revenue :: real
  customer_age :: int
  days_since_last_purchase :: int
  target_monetary_value_3M :: real

record customer_feature_record = customer_features +
  data_split :: string

section \<open>The feature pipeline\<close>

text \<open>
  Modelled from the spec: daily aggregation, the validity filter, the windowed
  feature/target computation and the split assignment (spec, sections 4.2 to 4.5), which
  \<^verbatim>\<open>utils/data_download.py\<close> implements and which is not among the sources.
\<close>

definition line_revenue :: "raw_transaction \<Rightarrow> real" where
  \<comment> \<open>Modelled from the spec: revenue = quantity \<open>\<times>\<close> unit price per line (section 4.2).\<close>
  "line_revenue r = of_int (quantity r) * unit_price r"

definition daily_aggregation :: "raw_transaction list \<Rightarrow> daily_order list" where
  \<comment> \<open>Modelled from the spec: the daily aggregation of the missing script (section 4.2).
      One order per (customer id, calendar date), a null customer id being a group of its
      own. The spec does not say which country a group carries: the model takes that of
      the group's first row.\<close>
  "daily_aggregation rows =
     map (\<lambda>(k, g).
           \<lparr> daily_order.customer_id = fst k,
             order_date = snd k,
             country = (case g of [] \<Rightarrow> None | r # _ \<Rightarrow> raw_transaction.country r),
             total_quantity = sum_list (map quantity g),
             total_revenue = sum_list (map line_revenue g) \<rparr>)
         (GROUP_BY (\<lambda>r. (raw_transaction.customer_id r, raw_transaction.order_date r)) rows)"

definition daily_totals :: "daily_order list \<Rightarrow> int option \<times> date \<Rightarrow> (int \<times> real) option" where
  \<comment> \<open>Modelled from the spec: the totals of the \<open>DailyOrder\<close> of a (customer id, date)
      group, if there is one (section 8).\<close>
  "daily_totals orders k =
     map_option (\<lambda>x. (total_quantity x, total_revenue x))
       (find (\<lambda>x. (daily_order.customer_id x, order_date x) = k) orders)"

definition valid_order :: "daily_order \<Rightarrow> bool" where
  \<comment> \<open>Modelled from the spec: the predicate of the validity filter (section 4.3).\<close>
  "valid_order x \<longleftrightarrow>
     daily_order.customer_id x \<noteq> None \<and> 0 < total_quantity x \<and> 0 < total_revenue x"

definition validity_filter :: "daily_order list \<Rightarrow> daily_order list" where
  \<comment> \<open>Modelled from the spec: the validity filter of the missing script (section 4.3).\<close>
  "validity_filter orders = filter valid_order orders"

record windows =
  study_start :: date
  feature_end :: date
  study_end :: date

definition in_feature_window :: "windows \<Rightarrow> daily_order \<Rightarrow> bool" where
  \<comment> \<open>Modelled from the spec: the feature window \<open>[study_start, feature_end)\<close> (section 4.4).\<close>
  "in_feature_window w x \<longleftrightarrow> study_start w \<le> order_date x \<and> order_date x < feature_end w"

definition in_study_window :: "windows \<Rightarrow> daily_order \<Rightarrow> bool" where
  \<comment> \<open>Modelled from the spec: feature and target window together,
      \<open>[study_start, study_end)\<close> (section 4.4).\<close>
  "in_study_window w x \<longleftrightarrow> study_start w \<le> order_date x \<and> order_date x < study_end w"

definition latest_country :: "daily_order list \<Rightarrow> string option" where
  \<comment> \<open>Modelled from the spec: the most recent non-null country, the latest order date
      winning (section 4.4).\<close>
  "latest_country orders =
     map_option snd
       (fold (\<lambda>x best.
                case country x of
                  None \<Rightarrow> best
                | Some c \<Rightarrow>
                    (case best of
                       None \<Rightarrow> Some (order_date x, c)
                     | Some (d, c') \<Rightarrow> if d \<le> order_date x then Some (order_date x, c) else best))
             orders None)"

definition customer_feature :: "windows \<Rightarrow> daily_order list \<Rightarrow> int \<Rightarrow> customer_features option" where
  \<comment> \<open>Modelled from the spec: the windowed feature/target computation of the missing
      script for one customer \<open>c\<close> (section 4.4); \<open>None\<close> for a customer with no order in
      the feature window, who gets no record.\<close>
  "customer_feature w orders c =
     (let mine = filter (\<lambda>x. daily_order.customer_id x = Some c) orders;
          feat = filter (in_feature_window w) mine
      in case feat of
           [] \<Rightarrow> None
         | f # fs \<Rightarrow>
             Some \<lparr> customer_features.customer_id = c,
                    customer_country = latest_country feat,
                    n_purchases = int (length feat),
                    avg_purchase_size = of_int (sum_list (map total_quantity feat)) / real (length feat),
                    avg_purchase_revenue = sum_list (map total_revenue feat) / real (length feat),
                    customer_age = feature_end w - fold min (map order_date fs) (order_date f),
                    days_since_last_purchase =
                      feature_end w - fold max (map order_date fs) (order_date f),
                    target_monetary_value_3M =
                      sum_list (map total_revenue (filter (in_study_window w) mine)) \<rparr>)"

definition windowed_features :: "windows \<Rightarrow> daily_order list \<Rightarrow> customer_features list" where
  \<comment> \<open>Modelled from the spec: one record per customer with an order in the feature window
      (section 4.4).\<close>
  "windowed_features w orders =
     non_null (map (customer_feature w orders)
                 (remdups (non_null (map daily_order.customer_id orders))))"

datatype split = TRAIN | VALIDATE | TEST

fun split_name :: "split \<Rightarrow> string" where
  "split_name TRAIN = ''TRAIN''"
| "split_name VALIDATE = ''VALIDATE''"
| "split_name TEST = ''TEST''"

definition split_of :: "(int \<Rightarrow> nat) \<Rightarrow> int \<Rightarrow> split" where
  \<comment> \<open>Modelled from the spec: the split assignment of the missing script (section 4.5), a
      fixed modulo of a hash \<open>h\<close> of the customer id in the proportions 70/15/15. The
      hash is a parameter.\<close>
  "split_of h c =
     (let bucket = h c mod 100
      in if bucket < 70 then TRAIN else if bucket < 85 then VALIDATE else TEST)"

definition assign_split :: "(int \<Rightarrow> nat) \<Rightarrow> customer_features \<Rightarrow> customer_feature_record" where
  \<comment> \<open>Modelled from the spec: the record with its \<open>data_split\<close> column (section 4.5).\<close>
  "assign_split h r =
     customer_features.extend r
       (customer_feature_record.fields (split_name (split_of h (customer_features.customer_id r))))"

definition split_assignment :: "(int \<Rightarrow> nat) \<Rightarrow> customer_features list \<Rightarrow> customer_feature_record list" where
  \<comment> \<open>Modelled from the spec: the ML table, every record with its split (section 4.5).\<close>
  "split_assignment h rs = map (assign_split h) rs"

section \<open>The baseline queries of the notebook\<close>

subsection \<open>The common table expression \<^verbatim>\<open>day_intervals\<close>\<close>

record day_interval =
  customer_id :: "int option"
  target_days :: "int option"
  feature_days :: "int option"

definition day_intervals :: "daily_order list \<Rightarrow> day_interval list" where
  "day_intervals clean =
     map (\<lambda>(k, g).
           \<lparr> day_interval.customer_id = k,
             target_days = Some (date_diff_day (DATE 2011 12 1) (DATE 2011 9 1)),
             feature_days =
               map_option (date_diff_day (DATE 2011 9 1))
                 (sql_min (map (\<lambda>r. Some (order_date r)) g)) \<rparr>)
         (GROUP_BY daily_order.customer_id clean)"

subsection \<open>The common table expression \<^verbatim>\<open>predicted_clv\<close>\<close>

text \<open>
  Both baseline cells join the ML table with \<^verbatim>\<open>day_intervals\<close> on \<^verbatim>\<open>customer_id\<close>, the
  metrics cell with \<^verbatim>\<open>LEFT JOIN\<close> and the per-customer cell with \<^verbatim>\<open>INNER JOIN\<close>, group by
  \<^verbatim>\<open>customer_id\<close> and select the same two expressions. A joined row is the ML row with
  the \<^verbatim>\<open>day_intervals\<close> row it matched; an unmatched ML row of the left join has \<open>None\<close>
  there, so that every \<^verbatim>\<open>day_intervals\<close> column of it is \<^verbatim>\<open>NULL\<close>.
\<close>

type_synonym joined_row = "customer_feature_record \<times> day_interval option"

definition join_matches :: "customer_feature_record \<Rightarrow> day_interval list \<Rightarrow> day_interval list" where
  \<comment> \<open>\<^verbatim>\<open>USING(customer_id)\<close>: equality of the two columns, which a \<^verbatim>\<open>NULL\<close> never satisfies.\<close>
  "join_matches m ds =
     filter (\<lambda>d. day_interval.customer_id d = Some (customer_features.customer_id m)) ds"

definition LEFT_JOIN :: "customer_feature_record list \<Rightarrow> day_interval list \<Rightarrow> joined_row list" where
  "LEFT_JOIN ml ds =
     concat (map (\<lambda>m. case join_matches m ds of
                         [] \<Rightarrow> [(m, None)]
                       | d # ds' \<Rightarrow> map (\<lambda>d. (m, Some d)) (d # ds')) ml)"

definition INNER_JOIN :: "customer_feature_record list \<Rightarrow> day_interval list \<Rightarrow> joined_row list" where
  "INNER_JOIN ml ds = concat (map (\<lambda>m. map (\<lambda>d. (m, Some d)) (join_matches m ds)) ml)"

definition joined_target_days :: "joined_row \<Rightarrow> int option" where
  "joined_target_days j = (case snd j of None \<Rightarrow> None | Some d \<Rightarrow> target_days d)"

definition joined_feature_days :: "joined_row \<Rightarrow> int option" where
  "joined_feature_days j = (case snd j of None \<Rightarrow> None | Some d \<Rightarrow> feature_days d)"

definition days_ratio :: "joined_row list \<Rightarrow> real option" where
  \<comment> \<open>\<^verbatim>\<open>SAFE_DIVIDE(COUNT(target_days), COUNT(feature_days))\<close> over the rows of one group.\<close>
  "days_ratio g =
     safe_divide (Some (of_int (sql_count (map joined_target_days g))))
                 (Some (of_int (sql_count (map joined_feature_days g))))"

definition predicted_monetary_value :: "joined_row list \<Rightarrow> real option" where
  \<comment> \<open>\<^verbatim>\<open>AVG(avg_purchase_revenue) * (COUNT(n_purchases) * (1 + SAFE_DIVIDE(...)))\<close>.\<close>
  "predicted_monetary_value g =
     sql_binop (*) (sql_avg (map (\<lambda>j. Some (avg_purchase_revenue (fst j))) g))
       (sql_binop (*) (Some (of_int (sql_count (map (\<lambda>j. Some (n_purchases (fst j))) g))))
          (sql_binop (+) (Some 1) (days_ratio g)))"

record predicted_clv_row =
  customer_id :: int
  predicted_monetary_value_3M :: "real option"
  target_monetary_value_3M :: "real option"

definition predicted_clv :: "joined_row list \<Rightarrow> predicted_clv_row list" where
  \<comment> \<open>\<^verbatim>\<open>SELECT ... GROUP BY customer_id\<close> over the joined rows.\<close>
  "predicted_clv joined =
     map (\<lambda>(k, g).
           \<lparr> predicted_clv_row.customer_id = k,
             predicted_monetary_value_3M = predicted_monetary_value g,
             target_monetary_value_3M =
               sql_sum (map (\<lambda>j. Some (customer_features.target_monetary_value_3M (fst j))) g) \<rparr>)
         (GROUP_BY (\<lambda>j. customer_features.customer_id (fst j)) joined)"

definition predicted_clv_left_join ::
  "customer_feature_record list \<Rightarrow> daily_order list \<Rightarrow> predicted_clv_row list" where
  \<comment> \<open>\<^verbatim>\<open>predicted_clv\<close> of the metrics cell.\<close>
  "predicted_clv_left_join ml clean = predicted_clv (LEFT_JOIN ml (day_intervals clean))"

definition predicted_clv_inner_join ::
  "customer_feature_record list \<Rightarrow> daily_order list \<Rightarrow> predicted_clv_row list" where
  \<comment> \<open>\<^verbatim>\<open>predicted_clv\<close> of the per-customer cell, which the cell returns as it is.\<close>
  "predicted_clv_inner_join ml clean = predicted_clv (INNER_JOIN ml (day_intervals clean))"

subsection \<open>The baseline regression metrics\<close>

datatype sql_error = Negative_SQRT_Argument

definition sql_sqrt :: "real option \<Rightarrow> sql_error + real option" where
  \<comment> \<open>\<^verbatim>\<open>SQRT\<close> fails the query on a negative argument.\<close>
  "sql_sqrt v =
     (case v of None \<Rightarrow> Inr None
      | Some x \<Rightarrow> if x < 0 then Inl Negative_SQRT_Argument else Inr (Some (sqrt x)))"

definition sql_pow :: "real option \<Rightarrow> nat \<Rightarrow> real option" where
  "sql_pow v n = map_option (\<lambda>x. x ^ n) v"

definition round_half_away :: "real \<Rightarrow> nat \<Rightarrow> real" where
  \<comment> \<open>Rounding to \<open>n\<close> decimals, halfway cases away from zero.\<close>
  "round_half_away x n = sgn x * of_int \<lfloor>\<bar>x\<bar> * 10 ^ n + 1 / 2\<rfloor> / 10 ^ n"

definition sql_round :: "real option \<Rightarrow> nat \<Rightarrow> real option" where
  "sql_round v n = map_option (\<lambda>x. round_half_away x n) v"

definition prediction_error :: "predicted_clv_row \<Rightarrow> real option" where
  \<comment> \<open>\<^verbatim>\<open>predicted_monetary_value_3M - target_monetary_value_3M\<close>.\<close>
  "prediction_error r =
     sql_binop (-) (predicted_monetary_value_3M r) (predicted_clv_row.target_monetary_value_3M r)"

record baseline_metrics =
  MAE :: "real option"
  MSE :: "real option"
  RMSE :: "real option"

definition baseline_metrics_of :: "predicted_clv_row list \<Rightarrow> sql_error + baseline_metrics" where
  "baseline_metrics_of rows =
     (let mse = sql_avg (map (\<lambda>r. sql_pow (prediction_error r) 2) rows)
      in case sql_sqrt mse of
           Inl e \<Rightarrow> Inl e
         | Inr rmse \<Rightarrow>
             Inr \<lparr> MAE = sql_round (sql_avg (map (\<lambda>r. map_option abs (prediction_error r)) rows)) 2,
                   MSE = sql_round mse 2,
                   RMSE = sql_round rmse 2 \<rparr>)"

definition baseline_metrics_query ::
  "customer_feature_record list \<Rightarrow> daily_order list \<Rightarrow> sql_error + baseline_metrics" where
  \<comment> \<open>The metrics cell as a whole.\<close>
  "baseline_metrics_query ml clean = baseline_metrics_of (predicted_clv_left_join ml clean)"


section \<open>The train, validation and test sets of the notebook\<close>

text \<open>
  The notebook selects the three sets from the ML table by the value of its
  \<^verbatim>\<open>data_split\<close> column: \<^verbatim>\<open>clv.loc[clv.data_split == 'TRAIN', :]\<close> and likewise for
  \<^verbatim>\<open>'VALIDATE'\<close> and \<^verbatim>\<open>'TEST'\<close>.
\<close>

definition clv_train :: "customer_feature_record list \<Rightarrow> customer_feature_record list" where
  "clv_train clv = filter (\<lambda>r. data_split r = ''TRAIN'') clv"

definition clv_dev :: "customer_feature_record list \<Rightarrow> customer_feature_record list" where
  "clv_dev clv = filter (\<lambda>r. data_split r = ''VALIDATE'') clv"

definition clv_test :: "customer_feature_record list \<Rightarrow> customer_feature_record list" where
  "clv_test clv = filter (\<lambda>r. data_split r = ''TEST'') clv"

definition data_split_counts :: "customer_feature_record list \<Rightarrow> (string \<times> int) list" where
  \<comment> \<open>\<^verbatim>\<open>SELECT data_split, COUNT(*) FROM ... GROUP BY data_split\<close>.\<close>
  "data_split_counts ml = map (\<lambda>(k, g). (k, int (length g))) (GROUP_BY data_split ml)"

section \<open>The custom metric \<^verbatim>\<open>rmse\<close> of the notebook\<close>

text \<open>
  \<^verbatim>\<open>rmse(y_true, y_pred)\<close> is \<^verbatim>\<open>tf.sqrt(tf.reduce_mean(tf.square(y_pred - y_true)))\<close>.
  The tensors are modelled as vectors (rank 1) of reals; the float32 rounding, overflow
  and non-finite inputs are not part of the model. What the model keeps of the
  framework: a subtraction of two vectors of different lengths broadcasts a vector of
  length 1 and fails otherwise; the mean of an empty vector is NaN; the square root of
  NaN or of a negative number is NaN; and no comparison with NaN holds.
\<close>

datatype tf_error = Incompatible_Shapes

datatype tf_scalar = Finite real | NaN

definition tf_subtract :: "real list \<Rightarrow> real list \<Rightarrow> tf_error + real list" where
  "tf_subtract a b =
     (if length a = length b then Inr (map2 (-) a b)
      else case a of
             [x] \<Rightarrow> Inr (map (\<lambda>y. x - y) b)
           | _ \<Rightarrow> (case b of
                     [y] \<Rightarrow> Inr (map (\<lambda>x. x - y) a)
                   | _ \<Rightarrow> Inl Incompatible_Shapes))"

definition tf_square :: "real list \<Rightarrow> real list" where
  "tf_square v = map (\<lambda>x. x * x) v"

definition tf_reduce_mean :: "real list \<Rightarrow> tf_scalar" where
  "tf_reduce_mean v = (if v = [] then NaN else Finite (sum_list v / real (length v)))"

fun tf_sqrt :: "tf_scalar \<Rightarrow> tf_scalar" where
  "tf_sqrt NaN = NaN"
| "tf_sqrt (Finite x) = (if x < 0 then NaN else Finite (sqrt x))"

fun tf_greater_equal :: "tf_scalar \<Rightarrow> real \<Rightarrow> bool" where
  "tf_greater_equal NaN y = False"
| "tf_greater_equal (Finite x) y = (y \<le> x)"

definition rmse :: "real list \<Rightarrow> real list \<Rightarrow> tf_error + tf_scalar" where
  "rmse y_true y_pred =
     (case tf_subtract y_pred y_true of
        Inl e \<Rightarrow> Inl e
      | Inr d \<Rightarrow> Inr (tf_sqrt (tf_reduce_mean (tf_square d))))"

section \<open>Example tables\<close>

text \<open>
  The scenario of the spec: customer 1 orders on 2011-06-10 (revenue 50) and 2011-08-20
  (revenue 70) in the feature window and on 2011-10-05 (revenue 40) in the target
  window. Customer 7 orders for the first time on 2011-09-01, the end of the feature
  window. The raw rows of the scenario hold the three orders of customer 1 (the first in
  two lines), a return and a row with no customer id.
\<close>

definition scenario_windows :: windows where
  "scenario_windows =
     \<lparr> study_start = DATE 2011 6 1, feature_end = DATE 2011 9 1, study_end = DATE 2011 12 1 \<rparr>"

definition scenario_raw :: "raw_transaction list" where
  "scenario_raw =
     [\<lparr> invoice_id = ''536365'', raw_transaction.customer_id = Some 1,
        country = Some ''United Kingdom'', order_date = DATE 2011 6 10,
        quantity = 2, unit_price = 10 \<rparr>,
      \<lparr> invoice_id = ''536365'', raw_transaction.customer_id = Some 1,
        country = Some ''United Kingdom'', order_date = DATE 2011 6 10,
        quantity = 3, unit_price = 10 \<rparr>,
      \<lparr> invoice_id = ''550001'', raw_transaction.customer_id = Some 1,
        country = Some ''United Kingdom'', order_date = DATE 2011 8 20,
        quantity = 7, unit_price = 10 \<rparr>,
      \<lparr> invoice_id = ''560002'', raw_transaction.customer_id = Some 1,
        country = Some ''United Kingdom'', order_date = DATE 2011 10 5,
        quantity = 4, unit_price = 10 \<rparr>,
      \<lparr> invoice_id = ''C560003'', raw_transaction.customer_id = Some 1,
        country = Some ''United Kingdom'', order_date = DATE 2011 10 6,
        quantity = - 1, unit_price = 10 \<rparr>,
      \<lparr> invoice_id = ''560004'', raw_transaction.customer_id = None,
        country = Some ''France'', order_date = DATE 2011 7 7,
        quantity = 9, unit_price = 2 \<rparr>]"

definition scenario_clean :: "daily_order list" where
  "scenario_clean =
     [\<lparr> daily_order.customer_id = Some 1, order_date = DATE 2011 6 10,
        country = Some ''United Kingdom'', total_quantity = 5, total_revenue = 50 \<rparr>,
      \<lparr> daily_order.customer_id = Some 1, order_date = DATE 2011 8 20,
        country = Some ''United Kingdom'', total_quantity = 7, total_revenue = 70 \<rparr>,
      \<lparr> daily_order.customer_id = Some 1, order_date = DATE 2011 10 5,
        country = Some ''United Kingdom'', total_quantity = 4, total_revenue = 40 \<rparr>]"

definition scenario_ml :: "customer_feature_record list" where
  "scenario_ml =
     [\<lparr> customer_features.customer_id = 1, customer_country = Some ''United Kingdom'',
        n_purchases = 2, avg_purchase_size = 6, avg_purchase_revenue = 60,
        customer_age = 83, days_since_last_purchase = 12,
        target_monetary_value_3M = 160, data_split = ''TRAIN'' \<rparr>]"

definition boundary_clean :: "daily_order list" where
  "boundary_clean =
     [\<lparr> daily_order.customer_id = Some 7, order_date = DATE 2011 9 1,
        country = Some ''France'', total_quantity = 3, total_revenue = 60 \<rparr>,
      \<lparr> daily_order.customer_id = Some 7, order_date = DATE 2011 10 1,
        country = Some ''France'', total_quantity = 2, total_revenue = 40 \<rparr>]"

section \<open>Properties of \<^verbatim>\<open>day_intervals\<close>\<close>

lemma non_null_Some [simp]: "non_null (map (\<lambda>r. Some (f r)) rs) = map f rs"
  by (induction rs) (simp_all add: non_null_def)

lemma sql_min_Some:
  assumes "rs \<noteq> []"
  shows "sql_min (map (\<lambda>r. Some (f r)) rs) = Some (Min (f ` set rs))"
proof -
  from assms obtain r rs' where rs: "rs = r # rs'"
    by (cases rs) auto
  have "fold min (map f rs') (f r) = Min (set (f r # map f rs'))"
    by (rule Min.set_eq_fold [symmetric])
  then have "sql_min (map (\<lambda>r. Some (f r)) rs) = Some (Min (set (map f rs)))"
    unfolding sql_min_def non_null_Some by (simp add: rs)
  then show ?thesis by simp
qed

lemma target_window_days: "date_diff_day (DATE 2011 12 1) (DATE 2011 9 1) = 91"
  by (simp add: date_diff_day_def DATE_def Let_def)

lemma GROUP_BY_member:
  "(k, g) \<in> set (GROUP_BY key rows) \<Longrightarrow>
     g = filter (\<lambda>r. key r = k) rows \<and> g \<noteq> [] \<and> k \<in> key ` set rows"
  by (auto simp: GROUP_BY_def filter_empty_conv)

lemma day_intervals_customer_ids:
  "map day_interval.customer_id (day_intervals clean)
     = remdups (map daily_order.customer_id clean)"
  by (simp add: day_intervals_def GROUP_BY_def comp_def)

text \<open>
  Claim C5. In \<^verbatim>\<open>day_intervals\<close>, \<^verbatim>\<open>target_days\<close> is the length in days of the target
  window from 2011-09-01 to 2011-12-01, which is 91, the same in every row; and
  \<^verbatim>\<open>feature_days\<close> of a row is the number of days from the first (earliest) order date
  of that row's customer in the clean table to the feature-window end 2011-09-01. The
  table has exactly one row per customer id of the clean table.
\<close>

theorem day_intervals_target_and_feature_days:
  "(\<forall>d \<in> set (day_intervals clean).
      target_days d = Some 91 \<and>
      feature_days d =
        Some (DATE 2011 9 1 -
              Min {order_date r | r. r \<in> set clean \<and>
                     daily_order.customer_id r = day_interval.customer_id d})) \<and>
   distinct (map day_interval.customer_id (day_intervals clean)) \<and>
   set (map day_interval.customer_id (day_intervals clean))
     = daily_order.customer_id ` set clean"
proof (intro conjI ballI)
  fix d assume "d \<in> set (day_intervals clean)"
  then obtain k g where kg: "(k, g) \<in> set (GROUP_BY daily_order.customer_id clean)"
    and d: "d = \<lparr> day_interval.customer_id = k,
             target_days = Some (date_diff_day (DATE 2011 12 1) (DATE 2011 9 1)),
             feature_days =
               map_option (date_diff_day (DATE 2011 9 1))
                 (sql_min (map (\<lambda>r. Some (order_date r)) g)) \<rparr>"
    by (auto simp: day_intervals_def)
  from kg have g: "g = filter (\<lambda>r. daily_order.customer_id r = k) clean" and ne: "g \<noteq> []"
    using GROUP_BY_member by fastforce+
  show "target_days d = Some 91"
    by (simp add: d target_window_days)
  have "order_date ` set g
          = {order_date r | r. r \<in> set clean \<and> daily_order.customer_id r = k}"
    by (auto simp: g)
  then show "feature_days d =
        Some (DATE 2011 9 1 -
              Min {order_date r | r. r \<in> set clean \<and>
                     daily_order.customer_id r = day_interval.customer_id d})"
    by (simp add: d sql_min_Some [OF ne] date_diff_day_def)
next
  show "distinct (map day_interval.customer_id (day_intervals clean))"
    by (simp add: day_intervals_customer_ids)
next
  show "set (map day_interval.customer_id (day_intervals clean))
          = daily_order.customer_id ` set clean"
    by (simp add: day_intervals_customer_ids)
qed


lemmas baseline_eval_defs =
  predicted_clv_left_join_def predicted_clv_inner_join_def predicted_clv_def LEFT_JOIN_def
  INNER_JOIN_def day_intervals_def GROUP_BY_def join_matches_def predicted_monetary_value_def
  days_ratio_def sql_avg_def sql_count_def sql_sum_def sql_binop_def safe_divide_def
  joined_target_days_def joined_feature_days_def non_null_def sql_min_def DATE_def
  date_diff_day_def Let_def

lemma scenario_day_intervals:
  "day_intervals scenario_clean =
     [\<lparr> day_interval.customer_id = Some 1, target_days = Some 91, feature_days = Some 83 \<rparr>]"
  by (simp add: scenario_clean_def baseline_eval_defs)

theorem day_intervals_target_and_feature_days_witness:
  "\<lparr> day_interval.customer_id = Some 1, target_days = Some 91, feature_days = Some 83 \<rparr>
     \<in> set (day_intervals scenario_clean) \<and>
   Min {order_date r | r. r \<in> set scenario_clean \<and> daily_order.customer_id r = Some 1}
     = DATE 2011 6 10"
proof -
  let ?d = "\<lparr> day_interval.customer_id = Some 1, target_days = Some 91,
              feature_days = Some 83 \<rparr>"
  have mem: "?d \<in> set (day_intervals scenario_clean)"
    by (simp add: scenario_day_intervals)
  with day_intervals_target_and_feature_days [of scenario_clean]
  have "feature_days ?d =
        Some (DATE 2011 9 1 -
              Min {order_date r | r. r \<in> set scenario_clean \<and>
                     daily_order.customer_id r = day_interval.customer_id ?d})"
    by blast
  then have "Min {order_date r | r. r \<in> set scenario_clean \<and>
                     daily_order.customer_id r = Some 1} = DATE 2011 9 1 - 83"
    by simp
  then show ?thesis
    using mem by (simp add: DATE_def)
qed

section \<open>Properties of the baseline metrics\<close>

lemma non_null_map_option: "non_null (map (\<lambda>r. map_option g (f r)) rs) = map g (non_null (map f rs))"
  by (induction rs) (auto simp: non_null_def split: option.splits)








lemma sql_avg_map_option:
  "sql_avg (map (\<lambda>r. map_option g (f r)) rs)
     = (let es = non_null (map f rs)
        in if es = [] then None else Some (sum_list (map g es) / real (length es)))"
  by (simp add: sql_avg_def non_null_map_option Let_def)

lemma mean_square_nonneg:
  fixes es :: "real list"
  shows "0 \<le> sum_list (map (\<lambda>e. e\<^sup>2) es) / real (length es)"
proof -
  have "0 \<le> sum_list (map (\<lambda>e. e\<^sup>2) es)"
    by (rule sum_list_nonneg) auto
  then show ?thesis by simp
qed

lemma baseline_metrics_of_Nil:
  assumes "non_null (map prediction_error rows) = []"
  shows "baseline_metrics_of rows = Inr \<lparr> MAE = None, MSE = None, RMSE = None \<rparr>"
  using assms
  by (simp add: baseline_metrics_of_def sql_pow_def sql_avg_map_option sql_sqrt_def sql_round_def)

lemma baseline_metrics_of_Cons:
  assumes "non_null (map prediction_error rows) = es" and "es \<noteq> []"
  shows "baseline_metrics_of rows =
           Inr \<lparr> MAE = Some (round_half_away (sum_list (map abs es) / real (length es)) 2),
                 MSE = Some (round_half_away (sum_list (map (\<lambda>e. e\<^sup>2) es) / real (length es)) 2),
                 RMSE = Some (round_half_away
                          (sqrt (sum_list (map (\<lambda>e. e\<^sup>2) es) / real (length es))) 2) \<rparr>"
proof -
  have "\<not> sum_list (map (\<lambda>e. e\<^sup>2) es) / real (length es) < 0"
    using mean_square_nonneg [of es] by simp
  then show ?thesis
    using assms
    by (simp add: baseline_metrics_of_def sql_pow_def sql_avg_map_option sql_sqrt_def
        sql_round_def)
qed




section \<open>Properties of the two joins\<close>

lemma filter_key_distinct:
  assumes "distinct (map f xs)" and "x \<in> set xs"
  shows "filter (\<lambda>y. f y = f x) xs = [x]"
  using assms
proof (induction xs)
  case Nil
  then show ?case by simp
next
  case (Cons a xs)
  show ?case
  proof (cases "a = x")
    case True
    have "f x \<notin> f ` set xs"
      using Cons.prems(1) True by simp
    then have "\<forall>y \<in> set xs. f y \<noteq> f x"
      by (metis imageI)
    then have "filter (\<lambda>y. f y = f x) xs = []"
      by (simp add: filter_empty_conv)
    with True show ?thesis by simp
  next
    case False
    with Cons.prems have x: "x \<in> set xs" and "f a \<noteq> f x" by auto
    with Cons show ?thesis by simp
  qed
qed

lemma join_matches_day_intervals:
  assumes "Some (customer_features.customer_id m) \<in> daily_order.customer_id ` set clean"
  shows "\<exists>d. join_matches m (day_intervals clean) = [d] \<and> d \<in> set (day_intervals clean) \<and>
             day_interval.customer_id d = Some (customer_features.customer_id m)"
proof -
  let ?ds = "day_intervals clean"
  have "Some (customer_features.customer_id m) \<in> set (map day_interval.customer_id ?ds)"
    using assms by (simp add: day_intervals_customer_ids)
  then obtain d where d: "d \<in> set ?ds"
    and k: "day_interval.customer_id d = Some (customer_features.customer_id m)"
    by auto
  have "distinct (map day_interval.customer_id ?ds)"
    by (simp add: day_intervals_customer_ids)
  then have "filter (\<lambda>y. day_interval.customer_id y = day_interval.customer_id d) ?ds = [d]"
    using d by (rule filter_key_distinct)
  then show ?thesis
    using d k by (auto simp: join_matches_def)
qed

lemma join_matches_empty:
  assumes "Some (customer_features.customer_id m) \<notin> daily_order.customer_id ` set clean"
  shows "join_matches m (day_intervals clean) = []"
proof -
  have "Some (customer_features.customer_id m) \<notin> set (map day_interval.customer_id (day_intervals clean))"
    using assms by (simp add: day_intervals_customer_ids)
  then show ?thesis
    by (force simp: join_matches_def filter_empty_conv)
qed

lemma LEFT_JOIN_eq_INNER_JOIN:
  assumes "\<forall>m \<in> set ml. join_matches m ds \<noteq> []"
  shows "LEFT_JOIN ml ds = INNER_JOIN ml ds"
proof -
  have "(case join_matches m ds of [] \<Rightarrow> [(m, None)] | d # ds' \<Rightarrow> map (\<lambda>d. (m, Some d)) (d # ds'))
          = map (\<lambda>d. (m, Some d)) (join_matches m ds)" if "m \<in> set ml" for m
    using assms that by (cases "join_matches m ds") auto
  then show ?thesis
    unfolding LEFT_JOIN_def INNER_JOIN_def by (simp cong: map_cong)
qed

text \<open>
  Claim C9. When every customer id of the ML table is a customer id of \<^verbatim>\<open>day_intervals\<close>,
  \<^verbatim>\<open>predicted_clv\<close> of the per-customer cell (\<^verbatim>\<open>INNER JOIN\<close>) and \<^verbatim>\<open>predicted_clv\<close> of the
  metrics cell (\<^verbatim>\<open>LEFT JOIN\<close>) are the same table: the same customers with the same
  predicted and target values.
\<close>

theorem baseline_variants_agree:
  assumes "\<forall>m \<in> set ml. Some (customer_features.customer_id m)
                            \<in> set (map day_interval.customer_id (day_intervals clean))"
  shows "predicted_clv_inner_join ml clean = predicted_clv_left_join ml clean"
proof -
  have "join_matches m (day_intervals clean) \<noteq> []" if "m \<in> set ml" for m
  proof -
    from assms that
    have "Some (customer_features.customer_id m) \<in> daily_order.customer_id ` set clean"
      by (simp add: day_intervals_customer_ids)
    then show ?thesis
      using join_matches_day_intervals [of m clean] by auto
  qed
  then have "LEFT_JOIN ml (day_intervals clean) = INNER_JOIN ml (day_intervals clean)"
    by (intro LEFT_JOIN_eq_INNER_JOIN) simp
  then show ?thesis
    by (simp add: predicted_clv_inner_join_def predicted_clv_left_join_def)
qed

lemma scenario_predicted_clv:
  "predicted_clv_left_join scenario_ml scenario_clean =
     [\<lparr> predicted_clv_row.customer_id = 1, predicted_monetary_value_3M = Some 120,
        target_monetary_value_3M = Some 160 \<rparr>]"
  by (simp add: scenario_ml_def scenario_clean_def baseline_eval_defs)

theorem baseline_variants_agree_witness:
  "Some 1 \<in> set (map day_interval.customer_id (day_intervals scenario_clean)) \<and>
   predicted_clv_inner_join scenario_ml scenario_clean
     = predicted_clv_left_join scenario_ml scenario_clean \<and>
   predicted_clv_inner_join scenario_ml scenario_clean =
     [\<lparr> predicted_clv_row.customer_id = 1, predicted_monetary_value_3M = Some 120,
        target_monetary_value_3M = Some 160 \<rparr>]"
proof -
  have h: "\<forall>m \<in> set scenario_ml. Some (customer_features.customer_id m)
             \<in> set (map day_interval.customer_id (day_intervals scenario_clean))"
    by (simp add: scenario_day_intervals) (simp add: scenario_ml_def)
  show ?thesis
    using baseline_variants_agree [OF h] scenario_predicted_clv
    by (simp add: scenario_day_intervals)
qed

lemma filter_rows_of:
  assumes "\<And>j. j \<in> set (F a) \<Longrightarrow> fst j = a"
  shows "filter (\<lambda>j. c (fst j) = k) (F a) = (if c a = k then F a else [])"
proof -
  have "filter (\<lambda>j. c (fst j) = k) (F a) = filter (\<lambda>j. c a = k) (F a)"
    using assms by (intro filter_cong) auto
  then show ?thesis by simp
qed

lemma filter_concat_rows:
  assumes rows: "\<And>a j. j \<in> set (F a) \<Longrightarrow> fst j = a"
    and "distinct (map c ml)" and "m \<in> set ml"
  shows "filter (\<lambda>j. c (fst j) = c m) (concat (map F ml)) = F m"
  using assms(2,3)
proof (induction ml)
  case Nil
  then show ?case by simp
next
  case (Cons a ml)
  have head: "filter (\<lambda>j. c (fst j) = c m) (F a) = (if c a = c m then F a else [])"
    using rows by (rule filter_rows_of)
  show ?case
  proof (cases "a = m")
    case True
    have "c m \<notin> c ` set ml"
      using Cons.prems(1) True by simp
    then have "\<forall>b \<in> set ml. c b \<noteq> c m"
      by (metis imageI)
    then have "\<forall>b \<in> set ml. filter (\<lambda>j. c (fst j) = c m) (F b) = []"
      using rows by (simp add: filter_rows_of)
    then have "filter (\<lambda>j. c (fst j) = c m) (concat (map F ml)) = []"
      by (induction ml) simp_all
    with head True show ?thesis by simp
  next
    case False
    with Cons.prems have m: "m \<in> set ml" by simp
    then have "c a \<noteq> c m"
      using Cons.prems(1) by (metis distinct.simps(2) imageI list.simps(9) list.set_map)
    with head Cons.IH m Cons.prems(1) show ?thesis by simp
  qed
qed

lemma LEFT_JOIN_rows:
  "j \<in> set (case join_matches a ds of [] \<Rightarrow> [(a, None)]
             | d # ds' \<Rightarrow> map (\<lambda>d. (a, Some d)) (d # ds')) \<Longrightarrow> fst j = a"
  by (cases "join_matches a ds") auto

lemma LEFT_JOIN_group:
  assumes "distinct (map customer_features.customer_id ml)" and "m \<in> set ml"
  shows "filter (\<lambda>j. customer_features.customer_id (fst j) = customer_features.customer_id m)
           (LEFT_JOIN ml ds)
         = (case join_matches m ds of [] \<Rightarrow> [(m, None)]
            | d # ds' \<Rightarrow> map (\<lambda>d. (m, Some d)) (d # ds'))"
  unfolding LEFT_JOIN_def
  using LEFT_JOIN_rows assms
  by (rule filter_concat_rows [where F = "\<lambda>m. case join_matches m ds of [] \<Rightarrow> [(m, None)]
            | d # ds' \<Rightarrow> map (\<lambda>d. (m, Some d)) (d # ds')"])

lemma INNER_JOIN_group:
  assumes "distinct (map customer_features.customer_id ml)" and "m \<in> set ml"
  shows "filter (\<lambda>j. customer_features.customer_id (fst j) = customer_features.customer_id m)
           (INNER_JOIN ml ds)
         = map (\<lambda>d. (m, Some d)) (join_matches m ds)"
  unfolding INNER_JOIN_def
  using _ assms
  by (rule filter_concat_rows [where F = "\<lambda>m. map (\<lambda>d. (m, Some d)) (join_matches m ds)"]) auto

lemma LEFT_JOIN_fst: "j \<in> set (LEFT_JOIN ml ds) \<Longrightarrow> fst j \<in> set ml"
  unfolding LEFT_JOIN_def using LEFT_JOIN_rows by fastforce

lemma INNER_JOIN_fst: "j \<in> set (INNER_JOIN ml ds) \<Longrightarrow> fst j \<in> set ml"
  by (auto simp: INNER_JOIN_def)

lemma day_intervals_non_null:
  assumes "d \<in> set (day_intervals clean)"
  shows "target_days d \<noteq> None \<and> feature_days d \<noteq> None"
proof -
  from assms obtain k g where kg: "(k, g) \<in> set (GROUP_BY daily_order.customer_id clean)"
    and d: "d = \<lparr> day_interval.customer_id = k,
             target_days = Some (date_diff_day (DATE 2011 12 1) (DATE 2011 9 1)),
             feature_days =
               map_option (date_diff_day (DATE 2011 9 1))
                 (sql_min (map (\<lambda>r. Some (order_date r)) g)) \<rparr>"
    by (auto simp: day_intervals_def)
  from kg have "g \<noteq> []"
    using GROUP_BY_member by fastforce
  then show ?thesis
    by (simp add: d sql_min_Some)
qed

lemma single_row_group:
  assumes "target_days d \<noteq> None" and "feature_days d \<noteq> None"
  shows "sql_count (map joined_target_days [(m, Some d)]) = 1"
    and "sql_count (map joined_feature_days [(m, Some d)]) = 1"
    and "days_ratio [(m, Some d)] = Some 1"
    and "predicted_monetary_value [(m, Some d)] = Some (avg_purchase_revenue m * (1 * (1 + 1)))"
proof -
  from assms obtain t f where tf: "target_days d = Some t" "feature_days d = Some f"
    by auto
  show c1: "sql_count (map joined_target_days [(m, Some d)]) = 1"
    by (simp add: sql_count_def non_null_def joined_target_days_def tf)
  show c2: "sql_count (map joined_feature_days [(m, Some d)]) = 1"
    by (simp add: sql_count_def non_null_def joined_feature_days_def tf)
  show r: "days_ratio [(m, Some d)] = Some 1"
    unfolding days_ratio_def c1 c2 by (simp add: safe_divide_def)
  show "predicted_monetary_value [(m, Some d)] = Some (avg_purchase_revenue m * (1 * (1 + 1)))"
    unfolding predicted_monetary_value_def r
    by (simp add: sql_binop_def sql_avg_def sql_count_def non_null_def)
qed

text \<open>
  The guard of \<^verbatim>\<open>SAFE_DIVIDE\<close> is reached by the unmatched rows of the left join only: both
  counts are 0 there, the ratio term and the predicted value are \<^verbatim>\<open>NULL\<close>.
\<close>

lemma unmatched_row_group:
  "days_ratio [(m, None)] = None" and "predicted_monetary_value [(m, None)] = None"
  by (simp_all add: predicted_monetary_value_def days_ratio_def safe_divide_def sql_count_def
      sql_avg_def non_null_def joined_target_days_def joined_feature_days_def sql_binop_def)

text \<open>
  Claim C4. In both baseline cells the ratio term is \<^verbatim>\<open>SAFE_DIVIDE\<close> of two row counts
  of the customer's group, not of the day-window lengths. When the ML table has one row
  per customer, the group of a customer known to the clean table is one joined row
  (\<^verbatim>\<open>day_intervals\<close> has one row per customer by construction), so both counts are 1 and
  the ratio term is 1 for every such customer, whatever the customer's dates are; the
  predicted value is then \<^verbatim>\<open>avg_purchase_revenue * (1 * (1 + 1))\<close>.
\<close>

theorem baseline_ratio_divides_row_counts:
  assumes one_row: "distinct (map customer_features.customer_id ml)"
    and grp: "(k, g) \<in> set (GROUP_BY (\<lambda>j. customer_features.customer_id (fst j))
                           (LEFT_JOIN ml (day_intervals clean)))
            \<or> (k, g) \<in> set (GROUP_BY (\<lambda>j. customer_features.customer_id (fst j))
                           (INNER_JOIN ml (day_intervals clean)))"
    and known: "Some k \<in> daily_order.customer_id ` set clean"
  shows "sql_count (map joined_target_days g) = 1 \<and>
         sql_count (map joined_feature_days g) = 1 \<and>
         days_ratio g = Some 1 \<and>
         (\<exists>m \<in> set ml. customer_features.customer_id m = k \<and>
            predicted_monetary_value g = Some (avg_purchase_revenue m * (1 * (1 + 1))))"
proof -
  let ?key = "\<lambda>j::joined_row. customer_features.customer_id (fst j)"
  let ?ds = "day_intervals clean"
  from grp obtain j where j: "fst j \<in> set ml" "?key j = k"
    using GROUP_BY_member [of k g ?key] LEFT_JOIN_fst INNER_JOIN_fst
    by (metis (no_types, lifting) imageE)
  define m where "m = fst j"
  with j have m: "m \<in> set ml" and k: "customer_features.customer_id m = k"
    by simp_all
  from known k obtain d where d: "join_matches m ?ds = [d]" "d \<in> set ?ds"
    using join_matches_day_intervals [of m clean] by auto
  have "g = [(m, Some d)]"
    using grp
  proof
    assume "(k, g) \<in> set (GROUP_BY ?key (LEFT_JOIN ml ?ds))"
    then have "g = filter (\<lambda>j. ?key j = k) (LEFT_JOIN ml ?ds)"
      using GROUP_BY_member by fastforce
    then show ?thesis
      using LEFT_JOIN_group [OF one_row m, of ?ds] k d by simp
  next
    assume "(k, g) \<in> set (GROUP_BY ?key (INNER_JOIN ml ?ds))"
    then have "g = filter (\<lambda>j. ?key j = k) (INNER_JOIN ml ?ds)"
      using GROUP_BY_member by fastforce
    then show ?thesis
      using INNER_JOIN_group [OF one_row m, of ?ds] k d by simp
  qed
  moreover have "target_days d \<noteq> None" "feature_days d \<noteq> None"
    using day_intervals_non_null [OF d(2)] by simp_all
  ultimately show ?thesis
    using single_row_group [of d m] m k by auto
qed

theorem baseline_ratio_divides_row_counts_witness:
  "distinct (map customer_features.customer_id scenario_ml) \<and>
   Some 1 \<in> daily_order.customer_id ` set scenario_clean \<and>
   GROUP_BY (\<lambda>j. customer_features.customer_id (fst j))
     (LEFT_JOIN scenario_ml (day_intervals scenario_clean))
     = [(1, [(hd scenario_ml, Some (hd (day_intervals scenario_clean)))])] \<and>
   feature_days (hd (day_intervals scenario_clean)) = Some 83 \<and>
   target_days (hd (day_intervals scenario_clean)) = Some 91 \<and>
   days_ratio [(hd scenario_ml, Some (hd (day_intervals scenario_clean)))] = Some 1"
proof -
  let ?g = "[(hd scenario_ml, Some (hd (day_intervals scenario_clean)))]"
  have one_row: "distinct (map customer_features.customer_id scenario_ml)"
    by (simp add: scenario_ml_def)
  have known: "Some 1 \<in> daily_order.customer_id ` set scenario_clean"
    by (simp add: scenario_clean_def)
  have groups: "GROUP_BY (\<lambda>j. customer_features.customer_id (fst j))
     (LEFT_JOIN scenario_ml (day_intervals scenario_clean)) = [(1, ?g)]"
    unfolding scenario_day_intervals
    by (simp add: scenario_ml_def GROUP_BY_def LEFT_JOIN_def join_matches_def)
  then have grp: "(1, ?g) \<in> set (GROUP_BY (\<lambda>j. customer_features.customer_id (fst j))
                           (LEFT_JOIN scenario_ml (day_intervals scenario_clean)))
            \<or> (1, ?g) \<in> set (GROUP_BY (\<lambda>j. customer_features.customer_id (fst j))
                           (INNER_JOIN scenario_ml (day_intervals scenario_clean)))"
    by simp
  show ?thesis
    using baseline_ratio_divides_row_counts [OF one_row grp known] one_row known groups
    by (simp add: scenario_day_intervals)
qed

section \<open>The baseline on the example tables\<close>

text \<open>
  Claim C1. On the scenario of the spec the customer has \<open>n_purchases = 2\<close>,
  \<open>avg_purchase_revenue = 60\<close>, \<open>target_days = 91\<close> and \<open>feature_days = 83\<close>, so the claimed
  predicted value is \<open>60 * 2 * (1 + 91 / 83)\<close>. Both cells compute 120, that is
  \<open>60 * (1 * (1 + 1 / 1))\<close>: \<^verbatim>\<open>COUNT(n_purchases)\<close>, \<^verbatim>\<open>COUNT(target_days)\<close> and
  \<^verbatim>\<open>COUNT(feature_days)\<close> count the one joined row of the customer.
\<close>

theorem baseline_prediction_on_scenario:
  "day_intervals scenario_clean =
     [\<lparr> day_interval.customer_id = Some 1, target_days = Some 91, feature_days = Some 83 \<rparr>] \<and>
   predicted_clv_left_join scenario_ml scenario_clean =
     [\<lparr> predicted_clv_row.customer_id = 1, predicted_monetary_value_3M = Some 120,
        target_monetary_value_3M = Some 160 \<rparr>] \<and>
   predicted_clv_inner_join scenario_ml scenario_clean =
     [\<lparr> predicted_clv_row.customer_id = 1, predicted_monetary_value_3M = Some 120,
        target_monetary_value_3M = Some 160 \<rparr>] \<and>
   (120 :: real) \<noteq> 60 * 2 * (1 + 91 / 83)"
proof -
  have "predicted_clv_inner_join scenario_ml scenario_clean =
     [\<lparr> predicted_clv_row.customer_id = 1, predicted_monetary_value_3M = Some 120,
        target_monetary_value_3M = Some 160 \<rparr>]"
    by (simp add: scenario_ml_def scenario_clean_def baseline_eval_defs)
  then show ?thesis
    by (simp add: scenario_day_intervals scenario_predicted_clv)
qed

section \<open>Properties of the feature pipeline\<close>

lemma find_map_key:
  assumes "\<And>k'. f (g k') = k'"
  shows "find (\<lambda>x. f x = k) (map g ks) = (if k \<in> set ks then Some (g k) else None)"
  using assms by (induction ks) auto

lemma daily_aggregation_alt:
  "daily_aggregation rows =
     map (\<lambda>k. let g = filter (\<lambda>r. (raw_transaction.customer_id r, raw_transaction.order_date r) = k) rows
               in \<lparr> daily_order.customer_id = fst k,
                    order_date = snd k,
                    country = (case g of [] \<Rightarrow> None | r # _ \<Rightarrow> raw_transaction.country r),
                    total_quantity = sum_list (map quantity g),
                    total_revenue = sum_list (map line_revenue g) \<rparr>)
         (remdups (map (\<lambda>r. (raw_transaction.customer_id r, raw_transaction.order_date r)) rows))"
  by (simp add: daily_aggregation_def GROUP_BY_def comp_def Let_def)

lemma daily_totals_aggregation:
  "daily_totals (daily_aggregation rows) k =
     (if k \<in> (\<lambda>r. (raw_transaction.customer_id r, raw_transaction.order_date r)) ` set rows
      then Some (sum_list (map quantity
                   (filter (\<lambda>r. (raw_transaction.customer_id r, raw_transaction.order_date r) = k) rows)),
                 sum_list (map line_revenue
                   (filter (\<lambda>r. (raw_transaction.customer_id r, raw_transaction.order_date r) = k) rows)))
      else None)"
  unfolding daily_totals_def daily_aggregation_alt
  by (subst find_map_key) (simp_all add: Let_def)

lemma sum_list_filter_permuted:
  fixes f :: "'a \<Rightarrow> 'b::comm_monoid_add"
  assumes "mset xs = mset ys"
  shows "sum_list (map f (filter P xs)) = sum_list (map f (filter P ys))"
proof -
  have "mset (map f (filter P xs)) = mset (map f (filter P ys))"
    using assms by simp
  then have "sum_mset (mset (map f (filter P xs))) = sum_mset (mset (map f (filter P ys)))"
    by (rule arg_cong)
  then show ?thesis
    by (simp only: sum_mset_sum_list)
qed

text \<open>
  Claim C8. Daily aggregation is order-independent: for every list of raw transactions
  and every permutation of it, the aggregation of the permuted list has, for every
  (customer id, date) group, the same total quantity and the same total revenue as the
  aggregation of the list (and a group in the one is a group in the other).
\<close>

theorem daily_aggregation_order_independent:
  assumes "mset rows' = mset rows"
  shows "daily_totals (daily_aggregation rows') k = daily_totals (daily_aggregation rows) k"
proof -
  from assms have "set rows' = set rows"
    by (rule mset_eq_setD)
  then show ?thesis
    using sum_list_filter_permuted [OF assms, of quantity]
      sum_list_filter_permuted [OF assms, of line_revenue]
    by (simp add: daily_totals_aggregation)
qed


theorem daily_aggregation_order_independent_witness:
  "mset (rev scenario_raw) = mset scenario_raw \<and>
   daily_totals (daily_aggregation (rev scenario_raw)) (Some 1, DATE 2011 6 10) = Some (5, 50) \<and>
   daily_totals (daily_aggregation scenario_raw) (Some 1, DATE 2011 6 10) = Some (5, 50)"
proof -
  have h: "mset (rev scenario_raw) = mset scenario_raw" by simp
  have "daily_totals (daily_aggregation scenario_raw) (Some 1, DATE 2011 6 10) = Some (5, 50)"
    by (simp add: daily_totals_aggregation scenario_raw_def line_revenue_def DATE_def)
  then show ?thesis
    using daily_aggregation_order_independent [OF h, of "(Some 1, DATE 2011 6 10)"] by simp
qed

lemma fold_max_Max: "fold max xs (x::int) = Max (set (x # xs))"
  by (rule Max.set_eq_fold [symmetric])

lemma fold_min_Min: "fold min xs (x::int) = Min (set (x # xs))"
  by (rule Min.set_eq_fold [symmetric])

lemma set_non_null: "set (non_null vs) = {x. Some x \<in> set vs}"
  by (induction vs) (auto simp: non_null_def split: option.splits)

lemma customer_feature_invariants:
  assumes "customer_feature w orders c = Some r"
    and valid: "\<forall>x \<in> set orders. 0 \<le> total_revenue x"
  shows "0 < days_since_last_purchase r \<and>
         days_since_last_purchase r \<le> customer_age r \<and>
         0 \<le> customer_features.target_monetary_value_3M r"
proof -
  let ?mine = "filter (\<lambda>x. daily_order.customer_id x = Some c) orders"
  let ?feat = "filter (in_feature_window w) ?mine"
  from assms(1) obtain f fs where feat: "?feat = f # fs"
    by (cases ?feat) (simp_all add: customer_feature_def Let_def)
  let ?dates = "set (order_date f # map order_date fs)"
  have r: "days_since_last_purchase r = feature_end w - Max ?dates"
    "customer_age r = feature_end w - Min ?dates"
    "customer_features.target_monetary_value_3M r = sum_list (map total_revenue (filter (in_study_window w) ?mine))"
    using assms(1) feat
    by (auto simp: customer_feature_def Let_def fold_max_Max fold_min_Min)
  have "\<forall>x \<in> set ?feat. order_date x < feature_end w"
    by (simp add: in_feature_window_def)
  then have "\<forall>d \<in> ?dates. d < feature_end w"
    unfolding feat by simp
  then have mx: "Max ?dates < feature_end w"
    by simp
  have "Min ?dates \<le> order_date f"
    by (rule Min_le) simp_all
  moreover have "order_date f \<le> Max ?dates"
    by (rule Max_ge) simp_all
  ultimately have mn: "Min ?dates \<le> Max ?dates"
    by (rule order_trans)
  have t: "0 \<le> sum_list (map total_revenue (filter (in_study_window w) ?mine))"
    using valid by (intro sum_list_nonneg) auto
  show ?thesis
    unfolding r using mx mn t by (intro conjI) linarith+
qed

text \<open>
  Claim C7. Every record that the windowed feature/target computation produces from
  orders that passed the validity filter has \<open>days_since_last_purchase \<ge> 0\<close>,
  \<open>customer_age \<ge> days_since_last_purchase\<close> and a target monetary value \<open>\<ge> 0\<close>.
\<close>

theorem feature_record_invariants:
  "\<forall>r \<in> set (windowed_features w (validity_filter orders)).
     0 \<le> days_since_last_purchase r \<and>
     days_since_last_purchase r \<le> customer_age r \<and>
     0 \<le> customer_features.target_monetary_value_3M r"
proof
  fix r assume "r \<in> set (windowed_features w (validity_filter orders))"
  then obtain c where c: "customer_feature w (validity_filter orders) c = Some r"
    by (auto simp: windowed_features_def set_non_null)
  have "\<forall>x \<in> set (validity_filter orders). 0 \<le> total_revenue x"
    by (auto simp: validity_filter_def valid_order_def)
  with c have "0 < days_since_last_purchase r \<and>
         days_since_last_purchase r \<le> customer_age r \<and>
         0 \<le> customer_features.target_monetary_value_3M r"
    by (rule customer_feature_invariants)
  then show "0 \<le> days_since_last_purchase r \<and>
     days_since_last_purchase r \<le> customer_age r \<and>
     0 \<le> customer_features.target_monetary_value_3M r"
    by simp
qed

lemma scenario_pipeline:
  "windowed_features scenario_windows (validity_filter (daily_aggregation scenario_raw)) =
     [\<lparr> customer_features.customer_id = 1, customer_country = Some ''United Kingdom'',
        n_purchases = 2, avg_purchase_size = 6, avg_purchase_revenue = 60,
        customer_age = 83, days_since_last_purchase = 12,
        target_monetary_value_3M = 160 \<rparr>]"
  by (simp add: windowed_features_def customer_feature_def validity_filter_def valid_order_def
      daily_aggregation_def GROUP_BY_def scenario_raw_def scenario_windows_def line_revenue_def
      in_feature_window_def in_study_window_def latest_country_def non_null_def
      DATE_def Let_def)

theorem feature_record_invariants_witness:
  "\<lparr> customer_features.customer_id = 1, customer_country = Some ''United Kingdom'',
        n_purchases = 2, avg_purchase_size = 6, avg_purchase_revenue = 60,
        customer_age = 83, days_since_last_purchase = 12,
        target_monetary_value_3M = 160 \<rparr>
     \<in> set (windowed_features scenario_windows (validity_filter (daily_aggregation scenario_raw))) \<and>
   (0::int) \<le> 12 \<and> (12::int) \<le> 83 \<and> (0::real) \<le> 160"
proof -
  let ?r = "\<lparr> customer_features.customer_id = 1, customer_country = Some ''United Kingdom'',
        n_purchases = 2, avg_purchase_size = 6, avg_purchase_revenue = 60,
        customer_age = 83, days_since_last_purchase = 12,
        target_monetary_value_3M = 160 \<rparr>"
  have mem: "?r \<in> set (windowed_features scenario_windows
                        (validity_filter (daily_aggregation scenario_raw)))"
    by (simp add: scenario_pipeline)
  with feature_record_invariants [of scenario_windows "daily_aggregation scenario_raw"]
  have "0 \<le> days_since_last_purchase ?r \<and>
     days_since_last_purchase ?r \<le> customer_age ?r \<and>
     0 \<le> customer_features.target_monetary_value_3M ?r"
    by blast
  with mem show ?thesis by simp
qed

section \<open>Properties of the split assignment and of the three sets\<close>

lemma assign_split_fields [simp]:
  "customer_features.customer_id (assign_split h r) = customer_features.customer_id r"
  "data_split (assign_split h r) = split_name (split_of h (customer_features.customer_id r))"
  by (simp_all add: assign_split_def customer_features.defs customer_feature_record.defs)

lemma split_name_inject [simp]: "split_name a = split_name b \<longleftrightarrow> a = b"
  by (cases a; cases b) simp_all

lemma split_name_cases:
  "split_name a = ''TRAIN'' \<longleftrightarrow> a = TRAIN"
  "split_name a = ''VALIDATE'' \<longleftrightarrow> a = VALIDATE"
  "split_name a = ''TEST'' \<longleftrightarrow> a = TEST"
  by (cases a; simp)+

lemma split_sets_row_disjoint:
  "set (clv_train ml) \<inter> set (clv_dev ml) = {}"
  "set (clv_train ml) \<inter> set (clv_test ml) = {}"
  "set (clv_dev ml) \<inter> set (clv_test ml) = {}"
  by (auto simp: clv_train_def clv_dev_def clv_test_def)

lemma assigned_split:
  assumes "r \<in> set (split_assignment h rs)"
  shows "data_split r = split_name (split_of h (customer_features.customer_id r))"
proof -
  from assms obtain r0 where "r = assign_split h r0"
    by (auto simp: split_assignment_def)
  then show ?thesis by simp
qed

lemma split_set_ids:
  assumes "c \<in> customer_features.customer_id ` set (filter (\<lambda>r. data_split r = split_name s)
                                                     (split_assignment h rs))"
  shows "split_of h c = s"
proof -
  from assms obtain r where r: "r \<in> set (split_assignment h rs)"
    and s: "data_split r = split_name s" and c: "customer_features.customer_id r = c"
    by auto
  from r have "data_split r = split_name (split_of h (customer_features.customer_id r))"
    by (rule assigned_split)
  with s c show ?thesis by simp
qed

lemma split_sets_ids_disjoint:
  assumes "s \<noteq> s'"
  shows "customer_features.customer_id ` set (filter (\<lambda>r. data_split r = split_name s)
                                              (split_assignment h rs))
         \<inter> customer_features.customer_id ` set (filter (\<lambda>r. data_split r = split_name s')
                                                (split_assignment h rs)) = {}"
proof (rule ccontr)
  assume "\<not> ?thesis"
  then obtain c where
    in_s: "c \<in> customer_features.customer_id ` set (filter (\<lambda>r. data_split r = split_name s)
                                                 (split_assignment h rs))" and
    in_s': "c \<in> customer_features.customer_id ` set (filter (\<lambda>r. data_split r = split_name s')
                                                 (split_assignment h rs))"
    by blast
  from in_s have "split_of h c = s" by (rule split_set_ids)
  moreover from in_s' have "split_of h c = s'" by (rule split_set_ids)
  ultimately have "s = s'" by simp
  with assms show False by simp
qed

lemma GROUP_BY_sizes:
  "sum_list (map (\<lambda>(k, g). length g) (GROUP_BY key rows)) = length rows"
proof -
  let ?ks = "map key rows"
  have "sum_list (map (\<lambda>(k, g). length g) (GROUP_BY key rows))
          = sum_list (map (\<lambda>k. length (filter (\<lambda>r. key r = k) rows)) (remdups ?ks))"
    by (simp add: GROUP_BY_def comp_def)
  also have "\<dots> = (\<Sum>k \<in> set ?ks. length (filter (\<lambda>r. key r = k) rows))"
    by (simp add: sum_list_distinct_conv_sum_set)
  also have "\<dots> = (\<Sum>k \<in> set_mset (mset ?ks). count (mset ?ks) k)"
  proof (rule sum.cong)
    show "set ?ks = set_mset (mset ?ks)" by simp
  next
    fix k
    have "count (mset ?ks) k = count_list ?ks k"
      by (rule count_mset)
    also have "\<dots> = length (filter ((=) k) ?ks)"
      by (rule count_list_eq_length_filter)
    also have "\<dots> = length (filter (\<lambda>r. key r = k) rows)"
      by (simp add: filter_map comp_def eq_commute)
    finally show "length (filter (\<lambda>r. key r = k) rows) = count (mset ?ks) k"
      by simp
  qed
  also have "\<dots> = size (mset ?ks)"
    by (simp add: size_multiset_overloaded_eq)
  finally show ?thesis by simp
qed

lemma data_split_counts_total:
  "sum_list (map snd (data_split_counts ml)) = int (length ml)"
proof -
  have "map snd (data_split_counts ml)
          = map int (map (\<lambda>(k, g). length g) (GROUP_BY data_split ml))"
    by (simp add: data_split_counts_def comp_def case_prod_unfold)
  then have "sum_list (map snd (data_split_counts ml))
          = int (sum_list (map (\<lambda>(k, g). length g) (GROUP_BY data_split ml)))"
    by (simp only: sum_list_of_nat)
  then show ?thesis
    by (simp add: GROUP_BY_sizes)
qed

lemma data_split_counts_assigned:
  "fst ` set (data_split_counts (split_assignment h rs)) \<subseteq> {''TRAIN'', ''VALIDATE'', ''TEST''}"
proof
  fix k assume "k \<in> fst ` set (data_split_counts (split_assignment h rs))"
  then have "k \<in> data_split ` set (split_assignment h rs)"
    by (auto simp: data_split_counts_def GROUP_BY_def)
  then obtain r where "r \<in> set (split_assignment h rs)" and "k = data_split r"
    by auto
  then have "k = split_name (split_of h (customer_features.customer_id r))"
    by (simp add: assigned_split)
  then show "k \<in> {''TRAIN'', ''VALIDATE'', ''TEST''}"
    by (cases "split_of h (customer_features.customer_id r)") simp_all
qed

text \<open>
  Claim C6. The split assignment is keyed on the customer id: the split of every record is
  a function of its customer id alone, so running the assignment again, on the same
  records or after other records were added or reordered, gives every customer the same
  split. Every record of the assigned table is in one of the notebook's train,
  validation and test sets, and no customer id occurs in two of them. For every ML table
  the three sets that the notebook selects by \<^verbatim>\<open>data_split\<close> are pairwise disjoint, and
  the counts of the notebook's query per \<^verbatim>\<open>data_split\<close> value add up to the number of rows;
  on the assigned table that query returns no other value than the three split names.
\<close>

theorem split_assignment_is_partition:
  "(\<forall>r \<in> set (split_assignment h rs).
      data_split r = split_name (split_of h (customer_features.customer_id r))) \<and>
   set (clv_train (split_assignment h rs)) \<union> set (clv_dev (split_assignment h rs))
     \<union> set (clv_test (split_assignment h rs)) = set (split_assignment h rs) \<and>
   customer_features.customer_id ` set (clv_train (split_assignment h rs))
     \<inter> customer_features.customer_id ` set (clv_dev (split_assignment h rs)) = {} \<and>
   customer_features.customer_id ` set (clv_train (split_assignment h rs))
     \<inter> customer_features.customer_id ` set (clv_test (split_assignment h rs)) = {} \<and>
   customer_features.customer_id ` set (clv_dev (split_assignment h rs))
     \<inter> customer_features.customer_id ` set (clv_test (split_assignment h rs)) = {} \<and>
   set (clv_train ml) \<inter> set (clv_dev ml) = {} \<and>
   set (clv_train ml) \<inter> set (clv_test ml) = {} \<and>
   set (clv_dev ml) \<inter> set (clv_test ml) = {} \<and>
   sum_list (map snd (data_split_counts ml)) = int (length ml) \<and>
   fst ` set (data_split_counts (split_assignment h rs)) \<subseteq> {''TRAIN'', ''VALIDATE'', ''TEST''}"
proof -
  let ?clv = "split_assignment h rs"
  have keyed: "\<forall>r \<in> set ?clv.
      data_split r = split_name (split_of h (customer_features.customer_id r))"
    using assigned_split by blast
  have cover: "set (clv_train ?clv) \<union> set (clv_dev ?clv) \<union> set (clv_test ?clv) = set ?clv"
  proof
    show "set (clv_train ?clv) \<union> set (clv_dev ?clv) \<union> set (clv_test ?clv) \<subseteq> set ?clv"
      by (auto simp: clv_train_def clv_dev_def clv_test_def)
  next
    show "set ?clv \<subseteq> set (clv_train ?clv) \<union> set (clv_dev ?clv) \<union> set (clv_test ?clv)"
    proof
      fix r assume r: "r \<in> set ?clv"
      with keyed have "data_split r = split_name (split_of h (customer_features.customer_id r))"
        by blast
      then have "data_split r = ''TRAIN'' \<or> data_split r = ''VALIDATE'' \<or> data_split r = ''TEST''"
        by (cases "split_of h (customer_features.customer_id r)") simp_all
      with r show "r \<in> set (clv_train ?clv) \<union> set (clv_dev ?clv) \<union> set (clv_test ?clv)"
        by (auto simp: clv_train_def clv_dev_def clv_test_def)
    qed
  qed
  have d1: "customer_features.customer_id ` set (clv_train ?clv)
       \<inter> customer_features.customer_id ` set (clv_dev ?clv) = {}"
    using split_sets_ids_disjoint [of TRAIN VALIDATE h rs]
    by (simp add: clv_train_def clv_dev_def)
  have d2: "customer_features.customer_id ` set (clv_train ?clv)
       \<inter> customer_features.customer_id ` set (clv_test ?clv) = {}"
    using split_sets_ids_disjoint [of TRAIN TEST h rs]
    by (simp add: clv_train_def clv_test_def)
  have d3: "customer_features.customer_id ` set (clv_dev ?clv)
       \<inter> customer_features.customer_id ` set (clv_test ?clv) = {}"
    using split_sets_ids_disjoint [of VALIDATE TEST h rs]
    by (simp add: clv_dev_def clv_test_def)
  show ?thesis
    using keyed cover d1 d2 d3 split_sets_row_disjoint [of ml]
      data_split_counts_total [of ml] data_split_counts_assigned [of h rs]
    by (intro conjI)
qed

lemma scenario_split_assignment:
  "split_assignment (\<lambda>c. nat c)
     (windowed_features scenario_windows (validity_filter (daily_aggregation scenario_raw)))
     = scenario_ml"
  by (simp add: scenario_pipeline split_assignment_def assign_split_def split_of_def
      customer_features.defs customer_feature_record.defs scenario_ml_def)

theorem split_assignment_is_partition_witness:
  "hd scenario_ml \<in> set (split_assignment (\<lambda>c. nat c)
     (windowed_features scenario_windows (validity_filter (daily_aggregation scenario_raw)))) \<and>
   data_split (hd scenario_ml) = ''TRAIN'' \<and>
   split_of (\<lambda>c. nat c) (customer_features.customer_id (hd scenario_ml)) = TRAIN \<and>
   customer_features.customer_id ` set (clv_train scenario_ml)
     \<inter> customer_features.customer_id ` set (clv_dev scenario_ml) = {}"
proof -
  let ?rs = "windowed_features scenario_windows (validity_filter (daily_aggregation scenario_raw))"
  note part = split_assignment_is_partition [of "\<lambda>c. nat c" ?rs scenario_ml]
  have mem: "hd scenario_ml \<in> set (split_assignment (\<lambda>c. nat c) ?rs)"
    by (simp add: scenario_split_assignment) (simp add: scenario_ml_def)
  have tr: "data_split (hd scenario_ml) = ''TRAIN''"
    by (simp add: scenario_ml_def)
  have "data_split (hd scenario_ml)
          = split_name (split_of (\<lambda>c. nat c) (customer_features.customer_id (hd scenario_ml)))"
    using part [THEN conjunct1] mem by (rule bspec)
  with tr have s: "split_of (\<lambda>c. nat c) (customer_features.customer_id (hd scenario_ml)) = TRAIN"
    by (simp add: split_name_cases)
  have "customer_features.customer_id ` set (clv_train scenario_ml)
     \<inter> customer_features.customer_id ` set (clv_dev scenario_ml) = {}"
    using part [THEN conjunct2, THEN conjunct2, THEN conjunct1]
    by (simp only: scenario_split_assignment)
  with mem tr s show ?thesis
    by (intro conjI)
qed

section \<open>The baseline on the tables of the pipeline\<close>

lemma baseline_metrics_query_total: "\<exists>m. baseline_metrics_query ml clean = Inr m"
proof (cases "non_null (map prediction_error (predicted_clv_left_join ml clean)) = []")
  case True
  then show ?thesis
    by (simp add: baseline_metrics_query_def baseline_metrics_of_Nil)
next
  case False
  then show ?thesis
    using baseline_metrics_of_Cons [OF refl False]
    by (simp add: baseline_metrics_query_def)
qed

lemma customer_feature_order:
  assumes "customer_feature w orders c = Some r"
  shows "customer_features.customer_id r = c \<and>
         (\<exists>x \<in> set orders. daily_order.customer_id x = Some c \<and> in_feature_window w x)"
proof -
  let ?feat = "filter (in_feature_window w) (filter (\<lambda>x. daily_order.customer_id x = Some c) orders)"
  from assms obtain f fs where feat: "?feat = f # fs"
    by (cases ?feat) (simp_all add: customer_feature_def Let_def)
  then have "f \<in> set ?feat" by simp
  then have "f \<in> set orders \<and> daily_order.customer_id f = Some c \<and> in_feature_window w f"
    by simp
  moreover have "customer_features.customer_id r = c"
    using assms feat by (auto simp: customer_feature_def Let_def)
  ultimately show ?thesis by blast
qed

lemma ml_customer_order:
  assumes "m \<in> set (split_assignment h (windowed_features w clean))"
  shows "\<exists>x \<in> set clean. daily_order.customer_id x = Some (customer_features.customer_id m) \<and>
           in_feature_window w x"
proof -
  from assms obtain r where r: "r \<in> set (windowed_features w clean)" and m: "m = assign_split h r"
    by (auto simp: split_assignment_def)
  from r obtain c where "customer_feature w clean c = Some r"
    by (auto simp: windowed_features_def set_non_null)
  then show ?thesis
    using customer_feature_order [of w clean c r] m by simp
qed

lemma predicted_clv_left_join_customer:
  assumes "r \<in> set (predicted_clv_left_join ml clean)"
  shows "predicted_clv_row.customer_id r \<in> customer_features.customer_id ` set ml"
proof -
  let ?key = "\<lambda>j::joined_row. customer_features.customer_id (fst j)"
  from assms obtain k g where kg: "(k, g) \<in> set (GROUP_BY ?key (LEFT_JOIN ml (day_intervals clean)))"
    and k: "predicted_clv_row.customer_id r = k"
    by (auto simp: predicted_clv_left_join_def predicted_clv_def)
  from kg have "k \<in> ?key ` set (LEFT_JOIN ml (day_intervals clean))"
    using GROUP_BY_member by fastforce
  then obtain j where "j \<in> set (LEFT_JOIN ml (day_intervals clean))" and "?key j = k"
    by auto
  then show ?thesis
    using LEFT_JOIN_fst k by (metis imageI)
qed

lemma day_intervals_feature_days:
  assumes "d \<in> set (day_intervals clean)"
    and "x \<in> set clean" and "daily_order.customer_id x = day_interval.customer_id d"
  shows "\<exists>n. feature_days d = Some n \<and> DATE 2011 9 1 - order_date x \<le> n"
proof -
  from assms(1) obtain k g where kg: "(k, g) \<in> set (GROUP_BY daily_order.customer_id clean)"
    and d: "d = \<lparr> day_interval.customer_id = k,
             target_days = Some (date_diff_day (DATE 2011 12 1) (DATE 2011 9 1)),
             feature_days =
               map_option (date_diff_day (DATE 2011 9 1))
                 (sql_min (map (\<lambda>r. Some (order_date r)) g)) \<rparr>"
    by (auto simp: day_intervals_def)
  from kg have g: "g = filter (\<lambda>r. daily_order.customer_id r = k) clean" and ne: "g \<noteq> []"
    using GROUP_BY_member by fastforce+
  from assms(2,3) have "x \<in> set g"
    by (simp add: g d)
  then have "Min (order_date ` set g) \<le> order_date x"
    by (intro Min_le) simp_all
  moreover have "feature_days d = Some (DATE 2011 9 1 - Min (order_date ` set g))"
    by (simp add: d sql_min_Some [OF ne] date_diff_day_def)
  ultimately show ?thesis by simp
qed

text \<open>
  Claim C3. The ML table is made from the clean table by the windowed feature/target
  computation and the split assignment, with the feature window ending on 2011-09-01 as
  in the queries. A customer whose \<^verbatim>\<open>feature_days\<close> in \<^verbatim>\<open>day_intervals\<close> is 0 ordered for
  the first time on that day, has no order in the feature window and so no row in the ML
  table: no row of \<^verbatim>\<open>predicted_clv\<close> is that customer's, and the customer enters none of
  the three averages. The metrics cell does not fail, so that no undefined value reaches
  the metrics.
\<close>

theorem baseline_excludes_customer_with_zero_feature_days:
  assumes "feature_end w = DATE 2011 9 1"
  shows "(\<forall>d \<in> set (day_intervals clean).
            feature_days d = Some 0 \<longrightarrow>
              (\<forall>r \<in> set (predicted_clv_left_join
                            (split_assignment h (windowed_features w clean)) clean).
                 Some (predicted_clv_row.customer_id r) \<noteq> day_interval.customer_id d)) \<and>
         (\<exists>m. baseline_metrics_query (split_assignment h (windowed_features w clean)) clean
                 = Inr m)"
proof (intro conjI ballI impI)
  let ?ml = "split_assignment h (windowed_features w clean)"
  fix d r
  assume d: "d \<in> set (day_intervals clean)" and zero: "feature_days d = Some 0"
    and r: "r \<in> set (predicted_clv_left_join ?ml clean)"
  show "Some (predicted_clv_row.customer_id r) \<noteq> day_interval.customer_id d"
  proof
    assume same: "Some (predicted_clv_row.customer_id r) = day_interval.customer_id d"
    from r obtain m where m: "m \<in> set ?ml"
      and c: "customer_features.customer_id m = predicted_clv_row.customer_id r"
      using predicted_clv_left_join_customer by fastforce
    from m obtain x where x: "x \<in> set clean"
      and xc: "daily_order.customer_id x = Some (customer_features.customer_id m)"
      and win: "in_feature_window w x"
      using ml_customer_order by blast
    from xc c same have "daily_order.customer_id x = day_interval.customer_id d"
      by simp
    with d x obtain n where "feature_days d = Some n" and "DATE 2011 9 1 - order_date x \<le> n"
      using day_intervals_feature_days by blast
    with zero have "DATE 2011 9 1 \<le> order_date x"
      by simp
    moreover from win assms have "order_date x < DATE 2011 9 1"
      by (simp add: in_feature_window_def)
    ultimately show False by simp
  qed
next
  show "\<exists>m. baseline_metrics_query (split_assignment h (windowed_features w clean)) clean
                 = Inr m"
    by (rule baseline_metrics_query_total)
qed

lemma mixed_pipeline:
  "split_assignment (\<lambda>c. nat c) (windowed_features scenario_windows (scenario_clean @ boundary_clean))
     = scenario_ml"
  by (simp add: windowed_features_def customer_feature_def scenario_clean_def boundary_clean_def
      scenario_windows_def in_feature_window_def in_study_window_def latest_country_def
      non_null_def split_assignment_def assign_split_def split_of_def
      customer_features.defs customer_feature_record.defs scenario_ml_def DATE_def Let_def)

lemma mixed_day_intervals:
  "day_intervals (scenario_clean @ boundary_clean) =
     [\<lparr> day_interval.customer_id = Some 1, target_days = Some 91, feature_days = Some 83 \<rparr>,
      \<lparr> day_interval.customer_id = Some 7, target_days = Some 91, feature_days = Some 0 \<rparr>]"
  by (simp add: scenario_clean_def boundary_clean_def baseline_eval_defs)

lemma mixed_predicted_clv:
  "predicted_clv_left_join scenario_ml (scenario_clean @ boundary_clean) =
     [\<lparr> predicted_clv_row.customer_id = 1, predicted_monetary_value_3M = Some 120,
        target_monetary_value_3M = Some 160 \<rparr>]"
  by (simp add: scenario_ml_def scenario_clean_def boundary_clean_def baseline_eval_defs)

theorem baseline_excludes_customer_with_zero_feature_days_witness:
  "feature_end scenario_windows = DATE 2011 9 1 \<and>
   \<lparr> day_interval.customer_id = Some 7, target_days = Some 91, feature_days = Some 0 \<rparr>
     \<in> set (day_intervals (scenario_clean @ boundary_clean)) \<and>
   predicted_clv_left_join
     (split_assignment (\<lambda>c. nat c)
        (windowed_features scenario_windows (scenario_clean @ boundary_clean)))
     (scenario_clean @ boundary_clean) =
     [\<lparr> predicted_clv_row.customer_id = 1, predicted_monetary_value_3M = Some 120,
        target_monetary_value_3M = Some 160 \<rparr>] \<and>
   baseline_metrics_query
     (split_assignment (\<lambda>c. nat c)
        (windowed_features scenario_windows (scenario_clean @ boundary_clean)))
     (scenario_clean @ boundary_clean) = Inr \<lparr> MAE = Some 40, MSE = Some 1600, RMSE = Some 40 \<rparr>"
proof -
  let ?clean = "scenario_clean @ boundary_clean"
  let ?d = "\<lparr> day_interval.customer_id = Some 7, target_days = Some 91, feature_days = Some 0 \<rparr>"
  let ?r = "\<lparr> predicted_clv_row.customer_id = 1, predicted_monetary_value_3M = Some 120,
        target_monetary_value_3M = Some 160 \<rparr>"
  have w: "feature_end scenario_windows = DATE 2011 9 1"
    by (simp add: scenario_windows_def)
  note excl = baseline_excludes_customer_with_zero_feature_days
               [OF w, of ?clean "\<lambda>c. nat c", unfolded mixed_pipeline]
  have d: "?d \<in> set (day_intervals ?clean)"
    by (simp add: mixed_day_intervals)
  have r: "?r \<in> set (predicted_clv_left_join scenario_ml ?clean)"
    by (simp add: mixed_predicted_clv)
  have "feature_days ?d = Some 0 \<longrightarrow>
          (\<forall>r \<in> set (predicted_clv_left_join scenario_ml ?clean).
             Some (predicted_clv_row.customer_id r) \<noteq> day_interval.customer_id ?d)"
    using excl [THEN conjunct1] d by (rule bspec)
  then have "Some (predicted_clv_row.customer_id ?r) \<noteq> day_interval.customer_id ?d"
    using r by simp
  have m: "baseline_metrics_query scenario_ml ?clean
             = Inr \<lparr> MAE = Some 40, MSE = Some 1600, RMSE = Some 40 \<rparr>"
    by (simp add: baseline_metrics_query_def mixed_predicted_clv baseline_metrics_of_def
        prediction_error_def sql_binop_def sql_pow_def sql_avg_def non_null_def sql_sqrt_def
        sql_round_def round_half_away_def)
  show ?thesis
    using w d m excl by (simp add: mixed_pipeline mixed_predicted_clv)
qed

section \<open>Properties of \<^verbatim>\<open>rmse\<close>\<close>

lemma tf_square_diff_commute:
  "length a = length b \<Longrightarrow> tf_square (map2 (-) a b) = tf_square (map2 (-) b a)"
proof (induction a b rule: list_induct2)
  case Nil
  show ?case by simp
next
  case (Cons x xs y ys)
  have "(x - y) * (x - y) = (y - x) * (y - x)"
    by (simp add: algebra_simps)
  with Cons show ?case
    by (simp add: tf_square_def)
qed

lemma tf_square_map2:
  "tf_square (map2 (-) p t) = map (\<lambda>(t, p). (p - t)\<^sup>2) (zip t p)"
proof (induction p arbitrary: t)
  case Nil
  show ?case by (simp add: tf_square_def)
next
  case (Cons x xs)
  show ?case
  proof (cases t)
    case Nil
    then show ?thesis by (simp add: tf_square_def)
  next
    case (Cons y ys)
    with Cons.IH [of ys] show ?thesis
      by (simp add: tf_square_def power2_eq_square)
  qed
qed

lemma rmse_equal_length:
  assumes "length y_true = length y_pred"
  shows "rmse y_true y_pred = Inr (tf_sqrt (tf_reduce_mean (tf_square (map2 (-) y_pred y_true))))"
  using assms by (simp add: rmse_def tf_subtract_def)

lemma squares_mean_nonneg:
  "0 \<le> sum_list (map (\<lambda>(t, p). (p - t)\<^sup>2) (zip y_true y_pred)) / real n"
proof -
  have "0 \<le> sum_list (map (\<lambda>(t, p). (p - t)\<^sup>2) (zip y_true y_pred))"
    by (rule sum_list_nonneg) auto
  then show ?thesis by simp
qed

text \<open>
  Claim C10, as amended. For two vectors of the same length, \<^verbatim>\<open>rmse\<close> does not fail and is
  symmetric under swapping its arguments. When the vectors are not empty, its result is
  the square root of the mean of the squared differences \<open>(y_pred - y_true)\<^sup>2\<close> and is
  \<open>\<ge> 0\<close>; on two empty vectors the result is NaN.
\<close>

theorem rmse_root_mean_square_symmetric_nonneg:
  assumes "length y_true = length y_pred"
  shows "rmse y_true y_pred = rmse y_pred y_true \<and>
         (if y_true = [] then rmse y_true y_pred = Inr NaN
          else rmse y_true y_pred =
                 Inr (Finite (sqrt (sum_list (map (\<lambda>(t, p). (p - t)\<^sup>2) (zip y_true y_pred))
                                    / real (length y_true)))) \<and>
               (\<exists>v. rmse y_true y_pred = Inr v \<and> tf_greater_equal v 0))"
proof -
  let ?sq = "map (\<lambda>(t, p). (p - t)\<^sup>2) (zip y_true y_pred)"
  let ?mean = "sum_list ?sq / real (length y_true)"
  have sym: "rmse y_true y_pred = rmse y_pred y_true"
    using assms tf_square_diff_commute [of y_pred y_true]
    by (simp add: rmse_equal_length)
  have r: "rmse y_true y_pred = Inr (tf_sqrt (tf_reduce_mean ?sq))"
    using assms by (simp add: rmse_equal_length tf_square_map2)
  show ?thesis
  proof (cases "y_true = []")
    case True
    with assms r sym show ?thesis
      by (simp add: tf_reduce_mean_def)
  next
    case False
    with assms have ne: "?sq \<noteq> []" by (cases y_true; cases y_pred) auto
    have len: "length ?sq = length y_true"
      using assms by simp
    have "\<not> ?mean < 0"
      using squares_mean_nonneg [of y_true y_pred "length y_true"] by simp
    then have v: "rmse y_true y_pred = Inr (Finite (sqrt ?mean))"
      using r ne len by (simp add: tf_reduce_mean_def)
    moreover have "tf_greater_equal (Finite (sqrt ?mean)) 0"
      using squares_mean_nonneg [of y_true y_pred "length y_true"] by simp
    ultimately show ?thesis
      using False sym by simp
  qed
qed

theorem rmse_root_mean_square_symmetric_nonneg_witness:
  "length [1, 5 :: real] = length [2, 12 :: real] \<and>
   rmse [1, 5] [2, 12] = Inr (Finite 5) \<and> rmse [2, 12] [1, 5] = Inr (Finite 5)"
  using rmse_root_mean_square_symmetric_nonneg [of "[1, 5]" "[2, 12]"]
  by auto

text \<open>
  The claim C10 as stated fails on two empty vectors: they have equal length, and the
  result NaN is not \<open>\<ge> 0\<close>.
\<close>

theorem rmse_empty_not_nonneg:
  "\<not> (\<forall>y_true y_pred. length y_true = length y_pred \<longrightarrow>
        (\<exists>v. rmse y_true y_pred = Inr v \<and> tf_greater_equal v 0))"
proof
  assume "\<forall>y_true y_pred. length y_true = length y_pred \<longrightarrow>
        (\<exists>v. rmse y_true y_pred = Inr v \<and> tf_greater_equal v 0)"
  then have "\<exists>v. rmse [] [] = Inr v \<and> tf_greater_equal v 0"
    by blast
  moreover have "rmse [] [] = Inr NaN"
    by (simp add: rmse_def tf_subtract_def tf_square_def tf_reduce_mean_def)
  ultimately show False by auto
qed

end
